theory Spec2Isabelle
  imports Main
begin

section \<open>The REG to transform-archive converter (reg\_to\_h5.cxx)\<close>

text \<open>
  The converter parses its command line, reads one or two per-frame composite transforms
  from a DICOM registration file through a library parser, composes them, and hands the
  result to a library writer. The model follows the source function by function. What the
  source only calls (the parser, the writer, the inverse and the point action of a single
  matrix transform) is a parameter of the functions that use it.
\<close>

subsection \<open>Command line\<close>

text \<open>The \<^verbatim>\<open>Arguments\<close> struct; a default-constructed value has empty strings and empty optionals.\<close>

record Arguments =
  inputReg :: string
  outputTransform :: string
  fixedFoR :: "string option"
  movingFoR :: "string option"

definition default_Arguments :: Arguments where
  "default_Arguments =
     \<lparr>inputReg = [], outputTransform = [], fixedFoR = None, movingFoR = None\<rparr>"

text \<open>
  The standard error stream is a list of lines, each without its final newline.
  \<^verbatim>\<open>EXIT_SUCCESS\<close> is 0 and \<^verbatim>\<open>EXIT_FAILURE\<close> is 1.
\<close>

definition EXIT_SUCCESS :: int where "EXIT_SUCCESS = 0"
definition EXIT_FAILURE :: int where "EXIT_FAILURE = 1"

definition PrintUsage :: "string \<Rightarrow> string list" where
  "PrintUsage exec =
     [''Usage: '' @ exec @
      '' --input REG_FILE --output OUTPUT_H5 [--fixed FRAME_UID] [--moving FRAME_UID]'']"

text \<open>A call of \<^verbatim>\<open>std::exit\<close>: the status and what was printed before it.\<close>

datatype exit = Exit int "string list"

text \<open>
  The loop of \<^verbatim>\<open>ParseArguments\<close> over \<^verbatim>\<open>argv[i]\<close>, \<^verbatim>\<open>1 \<le> i < argc\<close>: the second
  argument is the list of tokens from position \<^verbatim>\<open>i\<close> on, so \<^verbatim>\<open>i + 1 < argc\<close> says that
  the rest after the key is not empty, and \<^verbatim>\<open>argv[++i]\<close> takes its head.
\<close>

fun ParseLoop :: "string \<Rightarrow> Arguments \<Rightarrow> string list \<Rightarrow> exit + Arguments" where
  "ParseLoop exec args [] = Inr args"
| "ParseLoop exec args (key # rest) =
     (if (key = ''--input'' \<or> key = ''-i'') \<and> rest \<noteq> []
      then ParseLoop exec (args\<lparr>inputReg := hd rest\<rparr>) (tl rest)
      else if (key = ''--output'' \<or> key = ''-o'') \<and> rest \<noteq> []
      then ParseLoop exec (args\<lparr>outputTransform := hd rest\<rparr>) (tl rest)
      else if key = ''--fixed'' \<and> rest \<noteq> []
      then ParseLoop exec (args\<lparr>fixedFoR := Some (hd rest)\<rparr>) (tl rest)
      else if key = ''--moving'' \<and> rest \<noteq> []
      then ParseLoop exec (args\<lparr>movingFoR := Some (hd rest)\<rparr>) (tl rest)
      else if key = ''--help'' \<or> key = ''-h''
      then Inl (Exit EXIT_SUCCESS (PrintUsage exec))
      else Inl (Exit EXIT_FAILURE ((''Unknown argument: '' @ key) # PrintUsage exec)))"

text \<open>\<^verbatim>\<open>ParseArguments(argc, argv)\<close> with \<^verbatim>\<open>argv = exec # tokens\<close>.\<close>

definition ParseArguments :: "string \<Rightarrow> string list \<Rightarrow> exit + Arguments" where
  "ParseArguments exec tokens =
     (case ParseLoop exec default_Arguments tokens of
        Inl e \<Rightarrow> Inl e
      | Inr args \<Rightarrow>
          if inputReg args = [] \<or> outputTransform args = []
          then Inl (Exit EXIT_FAILURE (PrintUsage exec))
          else Inr args)"

text \<open>
  Vocabulary for statements about command lines: the flags that take a value; the field a
  flag stores its value into, as the four branches of the loop do; the value a flag's
  field holds; the long name of a flag (\<^verbatim>\<open>-i\<close> and \<^verbatim>\<open>-o\<close> are aliases); the tokens of
  a list of flag and value pairs; and the stores of such a list, from left to right.
\<close>

definition value_flags :: "string list" where
  "value_flags = [''--input'', ''-i'', ''--output'', ''-o'', ''--fixed'', ''--moving'']"

definition store_flag :: "string \<Rightarrow> string \<Rightarrow> Arguments \<Rightarrow> Arguments" where
  "store_flag key v args =
     (if key = ''--input'' \<or> key = ''-i'' then args\<lparr>inputReg := v\<rparr>
      else if key = ''--output'' \<or> key = ''-o'' then args\<lparr>outputTransform := v\<rparr>
      else if key = ''--fixed'' then args\<lparr>fixedFoR := Some v\<rparr>
      else if key = ''--moving'' then args\<lparr>movingFoR := Some v\<rparr>
      else args)"

definition flag_field :: "string \<Rightarrow> Arguments \<Rightarrow> string option" where
  "flag_field key args =
     (if key = ''--input'' \<or> key = ''-i'' then Some (inputReg args)
      else if key = ''--output'' \<or> key = ''-o'' then Some (outputTransform args)
      else if key = ''--fixed'' then fixedFoR args
      else if key = ''--moving'' then movingFoR args
      else None)"

definition long_name :: "string \<Rightarrow> string" where
  "long_name key =
     (if key = ''-i'' then ''--input'' else if key = ''-o'' then ''--output'' else key)"



subsection \<open>Transforms\<close>

text \<open>
  A transform object is a matrix transform (of a type the source leaves to the library,
  here \<open>'m\<close>) or a composite holding a queue of transform objects. A value of
  \<^verbatim>\<open>CompositeType\<close> is represented by its queue; \<open>Composite\<close> is the view of a composite
  through a pointer to the base class, and \<^verbatim>\<open>dynamic_cast<CompositeType *>\<close> succeeds
  exactly on it.
\<close>

datatype 'm transform = Matrix 'm | Composite "'m transform list"

type_synonym 'm composite = "'m transform list"

text \<open>
  Modelled from the spec: the class \<^verbatim>\<open>itk::CompositeTransform\<close> belongs to the ITK library
  and is not part of the sources. The spec's data model gives its operations: appending
  puts a transform at the back of the queue; flattening rewrites the queue so that no
  element is itself a composite, keeping the order of the matrix transforms; the inverse of
  \<open>[T1, ..., Tn]\<close> is \<open>[inverse Tn, ..., inverse T1]\<close> and exists iff every element is
  invertible. The library's loop for the inverse visits the queue from the front and
  pushes each inverse to the front of the result.
\<close>

definition AddTransform :: "'m composite \<Rightarrow> 'm transform \<Rightarrow> 'm composite" where
  "AddTransform q t = q @ [t]"

fun NestedQueue :: "'m transform \<Rightarrow> 'm transform list" where
  "NestedQueue (Matrix m) = [Matrix m]"
| "NestedQueue (Composite q) = concat (map NestedQueue q)"

definition FlattenTransformQueue :: "'m composite \<Rightarrow> 'm composite" where
  "FlattenTransformQueue q = concat (map NestedQueue q)"

fun GetInverseTransform :: "('m \<Rightarrow> 'm option) \<Rightarrow> 'm transform \<Rightarrow> 'm transform option"
  and InverseLoop :: "('m \<Rightarrow> 'm option) \<Rightarrow> 'm transform list \<Rightarrow> 'm composite \<Rightarrow> 'm composite option"
where
  "GetInverseTransform invm (Matrix m) = map_option Matrix (invm m)"
| "GetInverseTransform invm (Composite q) = map_option Composite (InverseLoop invm q [])"
| "InverseLoop invm [] acc = Some acc"
| "InverseLoop invm (t # ts) acc =
     (case GetInverseTransform invm t of
        None \<Rightarrow> None
      | Some t' \<Rightarrow> InverseLoop invm ts (t' # acc))"

text \<open>\<^verbatim>\<open>c->GetInverse(inverse)\<close>: \<open>None\<close> is the result \<^verbatim>\<open>false\<close>.\<close>

definition GetInverse :: "('m \<Rightarrow> 'm option) \<Rightarrow> 'm composite \<Rightarrow> 'm composite option" where
  "GetInverse invm q = InverseLoop invm q []"

text \<open>A composite is flattened iff none of its elements is itself a composite.\<close>

fun is_Matrix :: "'m transform \<Rightarrow> bool" where
  "is_Matrix (Matrix m) = True"
| "is_Matrix (Composite q) = False"

definition flattened :: "'m composite \<Rightarrow> bool" where
  "flattened q = list_all is_Matrix q"

text \<open>Whether a transform holds a matrix transform at any depth.\<close>

fun holds_matrix :: "'m transform \<Rightarrow> bool" where
  "holds_matrix (Matrix m) = True"
| "holds_matrix (Composite q) = list_ex holds_matrix q"

text \<open>
  Modelled from the spec: the point action of a composite is the library's
  \<^verbatim>\<open>TransformPoint\<close>, which the sources never call. The spec's data model defines it: the
  action of the composite \<open>[T1, T2, ..., Tn]\<close> on a point \<open>p\<close> is
  \<open>Tn (... T2 (T1 p) ...)\<close>, that is, \<open>T1\<close> is applied first and application proceeds
  left to right through the sequence (the glossary says the same: an ordered sequence of
  matrix transforms applied left to right). The action of one matrix transform on a point
  is the parameter \<open>app\<close>.
\<close>

fun TransformPoint :: "('m \<Rightarrow> 'p \<Rightarrow> 'p) \<Rightarrow> 'm transform \<Rightarrow> 'p \<Rightarrow> 'p" where
  "TransformPoint app (Matrix m) p = app m p"
| "TransformPoint app (Composite q) p = foldl (\<lambda>x t. TransformPoint app t x) p q"

definition CompositeTransformPoint :: "('m \<Rightarrow> 'p \<Rightarrow> 'p) \<Rightarrow> 'm composite \<Rightarrow> 'p \<Rightarrow> 'p" where
  "CompositeTransformPoint app q p = TransformPoint app (Composite q) p"

subsection \<open>Errors\<close>

text \<open>
  Every \<^verbatim>\<open>throw\<close> of the source is a constructor, named by the error kind of the spec;
  \<open>what\<close> is the message the source gives to \<^verbatim>\<open>std::runtime_error\<close>. \<open>ITKException\<close>
  is an \<^verbatim>\<open>itk::ExceptionObject\<close> thrown inside the library, with its printed form.
\<close>

datatype error =
    ITKException string
  | FrameNotFound string
  | UnexpectedTransformShape string
  | NotInvertible
  | MissingFixedFoR

fun what :: "error \<Rightarrow> string" where
  "what (ITKException msg) = msg"
| "what (FrameNotFound frameOfReference) =
     ''No transforms found for frame of reference '' @ frameOfReference"
| "what (UnexpectedTransformShape frameOfReference) =
     ''Expected CompositeTransform for frame '' @ frameOfReference"
| "what NotInvertible = ''Fixed transform is not invertible''"
| "what MissingFixedFoR =
     ''At least --fixed must be supplied to determine which transform to export''"

text \<open>The two \<^verbatim>\<open>catch\<close> clauses of \<^verbatim>\<open>main\<close>: the line each prints.\<close>

fun report :: "error \<Rightarrow> string" where
  "report (ITKException msg) = ''ITK error: '' @ msg"
| "report e = ''Error: '' @ what e"

subsection \<open>Reading and composing\<close>

text \<open>
  The library parser, configured with a file name and a frame of reference UID:
  \<open>Inl msg\<close> when \<^verbatim>\<open>reader->Update()\<close> throws, otherwise the pointer that
  \<^verbatim>\<open>GetTransformList()\<close> returns (\<open>None\<close> for a null pointer).
\<close>

type_synonym 'm parser = "string \<Rightarrow> string \<Rightarrow> string + 'm transform list option"

definition ReadComposite :: "'m parser \<Rightarrow> string \<Rightarrow> string \<Rightarrow> error + 'm composite" where
  "ReadComposite parser regPath frameOfReference =
     (case parser regPath frameOfReference of
        Inl msg \<Rightarrow> Inl (ITKException msg)
      | Inr None \<Rightarrow> Inl (FrameNotFound frameOfReference)
      | Inr (Some []) \<Rightarrow> Inl (FrameNotFound frameOfReference)
      | Inr (Some (Matrix m # rest)) \<Rightarrow> Inl (UnexpectedTransformShape frameOfReference)
      | Inr (Some (Composite q # rest)) \<Rightarrow> Inr q)"

definition ComposeFixedToMoving ::
  "'m parser \<Rightarrow> ('m \<Rightarrow> 'm option) \<Rightarrow> string \<Rightarrow> string \<Rightarrow> string \<Rightarrow> error + 'm composite" where
  "ComposeFixedToMoving parser invm regPath fixedFrame movingFrame =
     (case ReadComposite parser regPath fixedFrame of
        Inl e \<Rightarrow> Inl e
      | Inr fixed0 \<Rightarrow>
     (case ReadComposite parser regPath movingFrame of
        Inl e \<Rightarrow> Inl e
      | Inr moving0 \<Rightarrow>
          let fixed = FlattenTransformQueue fixed0;
              moving = FlattenTransformQueue moving0
          in (case GetInverse invm fixed of
                None \<Rightarrow> Inl NotInvertible
              | Some fixedInverse \<Rightarrow>
                  let final = AddTransform [] (Composite moving);
                      final = AddTransform final (Composite fixedInverse)
                  in Inr (FlattenTransformQueue final))))"

definition ExtractSingle :: "'m parser \<Rightarrow> string \<Rightarrow> string \<Rightarrow> error + 'm composite" where
  "ExtractSingle parser regPath frameOfReference =
     (case ReadComposite parser regPath frameOfReference of
        Inl e \<Rightarrow> Inl e
      | Inr fixed \<Rightarrow>
          let final = AddTransform [] (Composite fixed)
          in Inr (FlattenTransformQueue final))"

subsection \<open>The driver\<close>

text \<open>
  What a run leaves behind: the exit status, the lines on the standard error stream, and
  the calls of the library writer (output file name and composite). The program creates
  the output file nowhere else. The writer is a parameter: \<open>Some msg\<close> when
  \<^verbatim>\<open>writer->Update()\<close> throws.
\<close>

record 'm outcome =
  status :: int
  stderr :: "string list"
  writer_calls :: "(string \<times> 'm composite) list"

text \<open>The branch of \<^verbatim>\<open>main\<close> that picks the mode from the optional frames.\<close>

definition SelectTransform ::
  "'m parser \<Rightarrow> ('m \<Rightarrow> 'm option) \<Rightarrow> Arguments \<Rightarrow> error + 'm composite" where
  "SelectTransform parser invm args =
     (case fixedFoR args of
        Some f \<Rightarrow>
          (case movingFoR args of
             Some m \<Rightarrow> ComposeFixedToMoving parser invm (inputReg args) f m
           | None \<Rightarrow> ExtractSingle parser (inputReg args) f)
      | None \<Rightarrow> Inl MissingFixedFoR)"

definition main ::
  "'m parser \<Rightarrow> ('m \<Rightarrow> 'm option) \<Rightarrow> (string \<Rightarrow> 'm composite \<Rightarrow> string option) \<Rightarrow>
   string \<Rightarrow> string list \<Rightarrow> 'm outcome" where
  "main parser invm writer exec tokens =
     (case ParseArguments exec tokens of
        Inl (Exit code printed) \<Rightarrow> \<lparr>status = code, stderr = printed, writer_calls = []\<rparr>
      | Inr args \<Rightarrow>
          (case SelectTransform parser invm args of
             Inl e \<Rightarrow> \<lparr>status = EXIT_FAILURE, stderr = [report e], writer_calls = []\<rparr>
           | Inr transform \<Rightarrow>
               (case writer (outputTransform args) transform of
                  Some msg \<Rightarrow>
                    \<lparr>status = EXIT_FAILURE, stderr = [report (ITKException msg)],
                     writer_calls = [(outputTransform args, transform)]\<rparr>
                | None \<Rightarrow>
                    \<lparr>status = EXIT_SUCCESS, stderr = [],
                     writer_calls = [(outputTransform args, transform)]\<rparr>)))"

subsection \<open>A sample instance\<close>

text \<open>
  Matrix transforms for concrete runs: a translation by an integer vector, and the
  projection onto the plane \<open>z = 0\<close>, which has no inverse. The sample file holds the
  frames \<open>A\<close> (translation by \<open>(10, 0, 0)\<close>), \<open>B\<close> (translation by \<open>(0, 5, 0)\<close>),
  \<open>C\<close> (translation by \<open>(0, 0, 7)\<close>), \<open>N\<close> (three translations, two of them in
  a nested composite), \<open>S\<close> (a translation and the projection, the latter in a nested
  composite), \<open>E\<close> (a composite with an empty queue) and \<open>X\<close> (a transform list headed
  by a bare matrix transform).
\<close>

datatype sample = Translation int int int | ProjectZ

fun sample_inv :: "sample \<Rightarrow> sample option" where
  "sample_inv (Translation a b c) = Some (Translation (- a) (- b) (- c))"
| "sample_inv ProjectZ = None"

fun sample_app :: "sample \<Rightarrow> int \<times> int \<times> int \<Rightarrow> int \<times> int \<times> int" where
  "sample_app (Translation a b c) (x, y, z) = (x + a, y + b, z + c)"
| "sample_app ProjectZ (x, y, z) = (x, y, 0)"

definition sample_parser :: "sample parser" where
  "sample_parser regPath frameOfReference =
     (if regPath \<noteq> ''r.dcm'' then Inl ''Could not open file''
      else if frameOfReference = ''A'' then Inr (Some [Composite [Matrix (Translation 10 0 0)]])
      else if frameOfReference = ''B'' then Inr (Some [Composite [Matrix (Translation 0 5 0)]])
      else if frameOfReference = ''C'' then Inr (Some [Composite [Matrix (Translation 0 0 7)]])
      else if frameOfReference = ''N''
      then Inr (Some [Composite [Matrix (Translation 1 0 0),
                                 Composite [Matrix (Translation 0 2 0), Matrix (Translation 0 0 3)]]])
      else if frameOfReference = ''S''
      then Inr (Some [Composite [Matrix (Translation 1 2 3), Composite [Matrix ProjectZ]]])
      else if frameOfReference = ''E'' then Inr (Some [Composite []])
      else if frameOfReference = ''X'' then Inr (Some [Matrix ProjectZ])
      else Inr (Some []))"

definition sample_writer :: "string \<Rightarrow> sample composite \<Rightarrow> string option" where
  "sample_writer path c = None"

section \<open>Properties\<close>

subsection \<open>Flattening, inversion and the point action\<close>

lemma NestedQueue_is_Matrix: "list_all is_Matrix (NestedQueue t)"
  by (induction t) (auto simp: list_all_iff)

lemma flattened_Flatten: "flattened (FlattenTransformQueue q)"
  using NestedQueue_is_Matrix by (auto simp: flattened_def FlattenTransformQueue_def list_all_iff)

lemma Flatten_append:
  "FlattenTransformQueue (q1 @ q2) = FlattenTransformQueue q1 @ FlattenTransformQueue q2"
  by (simp add: FlattenTransformQueue_def)

lemma Flatten_Composite: "FlattenTransformQueue [Composite q] = FlattenTransformQueue q"
  by (simp add: FlattenTransformQueue_def)

lemma Flatten_flattened: "flattened q \<Longrightarrow> FlattenTransformQueue q = q"
proof (induction q)
  case Nil
  then show ?case by (simp add: FlattenTransformQueue_def)
next
  case (Cons t q)
  then show ?case by (cases t) (auto simp: FlattenTransformQueue_def flattened_def)
qed

lemma NestedQueue_point:
  "foldl (\<lambda>x t. TransformPoint app t x) p (NestedQueue t) = TransformPoint app t p"
proof (induction t arbitrary: p)
  case (Matrix m)
  show ?case by simp
next
  case (Composite q)
  then show ?case by (induction q arbitrary: p) auto
qed

lemma Flatten_point:
  "CompositeTransformPoint app (FlattenTransformQueue q) p = CompositeTransformPoint app q p"
  by (induction q arbitrary: p)
     (auto simp: CompositeTransformPoint_def FlattenTransformQueue_def NestedQueue_point)


lemma InverseLoop_Some:
  "InverseLoop invm q acc = Some r \<longleftrightarrow>
   (\<exists>qi. list_all2 (\<lambda>t t'. GetInverseTransform invm t = Some t') q qi \<and> r = rev qi @ acc)"
proof (induction q arbitrary: acc)
  case Nil
  show ?case by auto
next
  case (Cons t q)
  show ?case
  proof (cases "GetInverseTransform invm t")
    case None
    then show ?thesis by (auto simp: list_all2_Cons1)
  next
    case (Some t')
    then show ?thesis using Cons.IH [of "t' # acc"] by (auto simp: list_all2_Cons1)
  qed
qed

lemma InverseLoop_None:
  "InverseLoop invm q acc = None \<longleftrightarrow> (\<exists>t \<in> set q. GetInverseTransform invm t = None)"
  by (induction q arbitrary: acc) (auto split: option.splits)


lemma inverse_of_flattened:
  "list_all2 (\<lambda>t t'. GetInverseTransform invm t = Some t') q qi \<Longrightarrow> flattened q \<Longrightarrow> flattened qi"
proof (induction rule: list_all2_induct)
  case Nil
  show ?case by (simp add: flattened_def)
next
  case (Cons t q t' qi)
  then show ?case by (cases t) (auto simp: flattened_def)
qed

lemma flattened_rev: "flattened (rev q) = flattened q"
  by (simp add: flattened_def list_all_iff)

lemma GetInverse_Some:
  "GetInverse invm q = Some r \<longleftrightarrow>
   list_all2 (\<lambda>t t'. GetInverseTransform invm t = Some t') q (rev r)"
proof -
  have "(\<exists>qi. list_all2 (\<lambda>t t'. GetInverseTransform invm t = Some t') q qi \<and> r = rev qi) \<longleftrightarrow>
        list_all2 (\<lambda>t t'. GetInverseTransform invm t = Some t') q (rev r)"
  proof
    assume "\<exists>qi. list_all2 (\<lambda>t t'. GetInverseTransform invm t = Some t') q qi \<and> r = rev qi"
    then obtain qi where "list_all2 (\<lambda>t t'. GetInverseTransform invm t = Some t') q qi" "r = rev qi"
      by blast
    then show "list_all2 (\<lambda>t t'. GetInverseTransform invm t = Some t') q (rev r)" by simp
  next
    assume "list_all2 (\<lambda>t t'. GetInverseTransform invm t = Some t') q (rev r)"
    moreover have "r = rev (rev r)" by simp
    ultimately show "\<exists>qi. list_all2 (\<lambda>t t'. GetInverseTransform invm t = Some t') q qi \<and> r = rev qi"
      by blast
  qed
  then show ?thesis by (simp add: GetInverse_def InverseLoop_Some)
qed

lemma GetInverse_None:
  "GetInverse invm q = None \<longleftrightarrow> (\<exists>t \<in> set q. GetInverseTransform invm t = None)"
  by (simp add: GetInverse_def InverseLoop_None)

lemma GetInverse_flattened:
  assumes "GetInverse invm q = Some r" and "flattened q"
  shows "FlattenTransformQueue r = r"
proof -
  have "list_all2 (\<lambda>t t'. GetInverseTransform invm t = Some t') q (rev r)"
    using assms(1) by (simp add: GetInverse_Some)
  then have "flattened (rev r)" using assms(2) by (rule inverse_of_flattened)
  then have "flattened r" by (simp add: flattened_rev)
  then show ?thesis by (rule Flatten_flattened)
qed

lemma Flatten_idem: "FlattenTransformQueue (FlattenTransformQueue q) = FlattenTransformQueue q"
  by (rule Flatten_flattened) (rule flattened_Flatten)

lemma ComposeFixedToMoving_reads:
  assumes "ReadComposite parser regPath fixedFrame = Inr F"
    and "ReadComposite parser regPath movingFrame = Inr M"
  shows "ComposeFixedToMoving parser invm regPath fixedFrame movingFrame =
         (case GetInverse invm (FlattenTransformQueue F) of
            None \<Rightarrow> Inl NotInvertible
          | Some fi \<Rightarrow> Inr (FlattenTransformQueue M @ fi))"
proof (cases "GetInverse invm (FlattenTransformQueue F)")
  case None
  then show ?thesis using assms by (simp add: ComposeFixedToMoving_def)
next
  case (Some fi)
  have "FlattenTransformQueue fi = fi"
    using Some flattened_Flatten by (rule GetInverse_flattened)
  then show ?thesis using assms Some
    by (simp add: ComposeFixedToMoving_def AddTransform_def Flatten_append Flatten_Composite Flatten_idem)
qed

lemma ComposeFixedToMoving_fixed_error:
  "ReadComposite parser p f = Inl e \<Longrightarrow> ComposeFixedToMoving parser invm p f m = Inl e"
  by (simp add: ComposeFixedToMoving_def)

lemma ComposeFixedToMoving_moving_error:
  "ReadComposite parser p f = Inr F \<Longrightarrow> ReadComposite parser p m = Inl e \<Longrightarrow>
   ComposeFixedToMoving parser invm p f m = Inl e"
  by (simp add: ComposeFixedToMoving_def)

lemma ReadComposite_not_NotInvertible: "ReadComposite parser p f \<noteq> Inl NotInvertible"
  by (simp add: ReadComposite_def split: sum.splits option.splits list.splits transform.splits)

lemma singular_element:
  assumes "flattened q"
  shows "(\<exists>t \<in> set q. GetInverseTransform invm t = None) \<longleftrightarrow> (\<exists>x. Matrix x \<in> set q \<and> invm x = None)"
proof
  assume "\<exists>t \<in> set q. GetInverseTransform invm t = None"
  then obtain t where t: "t \<in> set q" "GetInverseTransform invm t = None" by blast
  with assms have "is_Matrix t" by (simp add: flattened_def list_all_iff)
  then obtain x where "t = Matrix x" by (cases t) auto
  with t show "\<exists>x. Matrix x \<in> set q \<and> invm x = None" by auto
next
  assume "\<exists>x. Matrix x \<in> set q \<and> invm x = None"
  then obtain x where "Matrix x \<in> set q" "invm x = None" by blast
  then have "GetInverseTransform invm (Matrix x) = None" by simp
  with \<open>Matrix x \<in> set q\<close> show "\<exists>t \<in> set q. GetInverseTransform invm t = None" by blast
qed

lemma GetInverse_None_Matrix:
  "GetInverse invm (FlattenTransformQueue q) = None \<longleftrightarrow>
   (\<exists>x. Matrix x \<in> set (FlattenTransformQueue q) \<and> invm x = None)"
  using singular_element [OF flattened_Flatten] by (simp add: GetInverse_None)

lemma ComposeFixedToMoving_NotInvertible:
  "ComposeFixedToMoving parser invm p f m = Inl NotInvertible \<longleftrightarrow>
   (\<exists>F M. ReadComposite parser p f = Inr F \<and> ReadComposite parser p m = Inr M \<and>
          GetInverse invm (FlattenTransformQueue F) = None)"
proof (cases "ReadComposite parser p f")
  case (Inl e)
  then have "ComposeFixedToMoving parser invm p f m = Inl e"
    by (simp add: ComposeFixedToMoving_def)
  moreover have "e \<noteq> NotInvertible" using Inl ReadComposite_not_NotInvertible by metis
  ultimately show ?thesis using Inl by simp
next
  case F: (Inr F)
  show ?thesis
  proof (cases "ReadComposite parser p m")
    case (Inl e)
    then have "ComposeFixedToMoving parser invm p f m = Inl e"
      using F by (simp add: ComposeFixedToMoving_def)
    moreover have "e \<noteq> NotInvertible" using Inl ReadComposite_not_NotInvertible by metis
    ultimately show ?thesis using Inl by simp
  next
    case (Inr M)
    show ?thesis
      using F Inr by (simp add: ComposeFixedToMoving_reads [OF F Inr] split: option.splits)
  qed
qed

subsection \<open>Runs on the sample file\<close>

lemma sample_read_A: "ReadComposite sample_parser ''r.dcm'' ''A'' = Inr [Matrix (Translation 10 0 0)]"
  by (simp add: ReadComposite_def sample_parser_def)

lemma sample_read_B: "ReadComposite sample_parser ''r.dcm'' ''B'' = Inr [Matrix (Translation 0 5 0)]"
  by (simp add: ReadComposite_def sample_parser_def)

lemma sample_compose_A_B:
  "ComposeFixedToMoving sample_parser sample_inv ''r.dcm'' ''A'' ''B'' =
   Inr [Matrix (Translation 0 5 0), Matrix (Translation (- 10) 0 0)]"
  by (simp add: ComposeFixedToMoving_def sample_read_A sample_read_B FlattenTransformQueue_def
      GetInverse_def AddTransform_def)

lemma sample_read_S:
  "ReadComposite sample_parser ''r.dcm'' ''S'' =
   Inr [Matrix (Translation 1 2 3), Composite [Matrix ProjectZ]]"
  by (simp add: ReadComposite_def sample_parser_def)

lemma sample_flatten_S:
  "FlattenTransformQueue [Matrix (Translation 1 2 3), Composite [Matrix ProjectZ]] =
   [Matrix (Translation 1 2 3), Matrix ProjectZ]"
  by (simp add: FlattenTransformQueue_def)

lemma sample_flatten_A:
  "FlattenTransformQueue [Matrix (Translation 10 0 0)] = [Matrix (Translation 10 0 0)]"
  by (simp add: FlattenTransformQueue_def)

lemma sample_read_N:
  "ReadComposite sample_parser ''r.dcm'' ''N'' =
   Inr [Matrix (Translation 1 0 0), Composite [Matrix (Translation 0 2 0), Matrix (Translation 0 0 3)]]"
  by (simp add: ReadComposite_def sample_parser_def)

lemma sample_flatten_N:
  "FlattenTransformQueue
     [Matrix (Translation 1 0 0), Composite [Matrix (Translation 0 2 0), Matrix (Translation 0 0 3)]] =
   [Matrix (Translation 1 0 0), Matrix (Translation 0 2 0), Matrix (Translation 0 0 3)]"
  by (simp add: FlattenTransformQueue_def)


subsection \<open>The queue of the pair composition\<close>

text \<open>
  Claim C2. Let \<open>[F1, ..., Fn]\<close> be the flattened queue of the composite read for the
  fixed frame and \<open>[M1, ..., Mm]\<close> the flattened queue of the one read for the moving
  frame. \<^verbatim>\<open>ComposeFixedToMoving(path, fixedFoR, movingFoR)\<close> returns a composite exactly
  when every \<open>Fi\<close> has an inverse, and the queue it returns is then
  \<open>[M1, ..., Mm, inverse Fn, ..., inverse F1]\<close>: the flattened moving queue, then the
  element-wise inverses of the fixed queue in reverse order.
\<close>

theorem ComposeFixedToMoving_queue:
  assumes "ReadComposite parser regPath fixedFrame = Inr F"
    and "ReadComposite parser regPath movingFrame = Inr M"
  shows "ComposeFixedToMoving parser invm regPath fixedFrame movingFrame = Inr R \<longleftrightarrow>
         (\<exists>Fi. list_all2 (\<lambda>t t'. GetInverseTransform invm t = Some t') (FlattenTransformQueue F) Fi \<and>
               R = FlattenTransformQueue M @ rev Fi)"
proof
  assume R: "ComposeFixedToMoving parser invm regPath fixedFrame movingFrame = Inr R"
  show "\<exists>Fi. list_all2 (\<lambda>t t'. GetInverseTransform invm t = Some t') (FlattenTransformQueue F) Fi \<and>
             R = FlattenTransformQueue M @ rev Fi"
  proof (cases "GetInverse invm (FlattenTransformQueue F)")
    case None
    then show ?thesis using assms R by (simp add: ComposeFixedToMoving_reads)
  next
    case (Some fi)
    then have "list_all2 (\<lambda>t t'. GetInverseTransform invm t = Some t') (FlattenTransformQueue F) (rev fi)"
      by (simp add: GetInverse_Some)
    moreover have "R = FlattenTransformQueue M @ rev (rev fi)"
      using assms R Some by (simp add: ComposeFixedToMoving_reads)
    ultimately show ?thesis by blast
  qed
next
  assume "\<exists>Fi. list_all2 (\<lambda>t t'. GetInverseTransform invm t = Some t') (FlattenTransformQueue F) Fi \<and>
               R = FlattenTransformQueue M @ rev Fi"
  then obtain Fi
    where Fi: "list_all2 (\<lambda>t t'. GetInverseTransform invm t = Some t') (FlattenTransformQueue F) Fi"
      and R: "R = FlattenTransformQueue M @ rev Fi"
    by blast
  from Fi have "GetInverse invm (FlattenTransformQueue F) = Some (rev Fi)"
    by (simp add: GetInverse_Some)
  then show "ComposeFixedToMoving parser invm regPath fixedFrame movingFrame = Inr R"
    using assms R by (simp add: ComposeFixedToMoving_reads)
qed

theorem ComposeFixedToMoving_queue_witness:
  "ComposeFixedToMoving sample_parser sample_inv ''r.dcm'' ''N'' ''S'' =
   Inr [Matrix (Translation 1 2 3), Matrix ProjectZ,
        Matrix (Translation 0 0 (- 3)), Matrix (Translation 0 (- 2) 0), Matrix (Translation (- 1) 0 0)]"
proof -
  let ?Fi = "[Matrix (Translation (- 1) 0 0), Matrix (Translation 0 (- 2) 0),
              Matrix (Translation 0 0 (- 3))]"
  have "list_all2 (\<lambda>t t'. GetInverseTransform sample_inv t = Some t')
          (FlattenTransformQueue
             [Matrix (Translation 1 0 0),
              Composite [Matrix (Translation 0 2 0), Matrix (Translation 0 0 3)]]) ?Fi \<and>
        [Matrix (Translation 1 2 3), Matrix ProjectZ,
         Matrix (Translation 0 0 (- 3)), Matrix (Translation 0 (- 2) 0), Matrix (Translation (- 1) 0 0)] =
        FlattenTransformQueue [Matrix (Translation 1 2 3), Composite [Matrix ProjectZ]] @ rev ?Fi"
    by (simp add: sample_flatten_N sample_flatten_S)
  then show ?thesis
    using ComposeFixedToMoving_queue [OF sample_read_N sample_read_S, of sample_inv
        "[Matrix (Translation 1 2 3), Matrix ProjectZ,
          Matrix (Translation 0 0 (- 3)), Matrix (Translation 0 (- 2) 0), Matrix (Translation (- 1) 0 0)]"]
    by blast
qed

subsection \<open>When the pair composition reports a singular transform\<close>

lemma sample_read_Q: "ReadComposite sample_parser ''r.dcm'' ''Q'' = Inl (FrameNotFound ''Q'')"
  by (simp add: ReadComposite_def sample_parser_def)

text \<open>
  Claim C9 says that the call raises the not-invertible error whenever the fixed composite
  is not invertible, and succeeds whenever it is. Neither holds when the read of the moving
  frame fails: with the singular fixed frame \<open>S\<close> and the absent moving frame \<open>Q\<close> the
  error raised is frame not found, and with the invertible fixed frame \<open>A\<close> and the same
  moving frame the call fails as well.
\<close>

theorem ComposeFixedToMoving_NotInvertible_counterexample:
  "ReadComposite sample_parser ''r.dcm'' ''S'' =
     Inr [Matrix (Translation 1 2 3), Composite [Matrix ProjectZ]] \<and>
   GetInverse sample_inv
     (FlattenTransformQueue [Matrix (Translation 1 2 3), Composite [Matrix ProjectZ]]) = None \<and>
   ComposeFixedToMoving sample_parser sample_inv ''r.dcm'' ''S'' ''Q'' = Inl (FrameNotFound ''Q'') \<and>
   ReadComposite sample_parser ''r.dcm'' ''A'' = Inr [Matrix (Translation 10 0 0)] \<and>
   GetInverse sample_inv (FlattenTransformQueue [Matrix (Translation 10 0 0)]) =
     Some [Matrix (Translation (- 10) 0 0)] \<and>
   ComposeFixedToMoving sample_parser sample_inv ''r.dcm'' ''A'' ''Q'' = Inl (FrameNotFound ''Q'')"
  by (simp add: sample_read_S sample_read_A sample_flatten_S sample_flatten_A GetInverse_def
      ComposeFixedToMoving_moving_error [OF sample_read_S sample_read_Q]
      ComposeFixedToMoving_moving_error [OF sample_read_A sample_read_Q])

text \<open>
  Claim C9, amended. \<^verbatim>\<open>ComposeFixedToMoving\<close> raises the not-invertible error if and only
  if both composites were read and the flattened composite of the fixed frame contains a
  matrix transform without inverse. The composite of the moving frame is never inverted:
  when both composites were read and every matrix of the fixed composite has an inverse,
  the call returns a composite, whatever the moving composite contains.
\<close>

theorem ComposeFixedToMoving_NotInvertible_iff:
  "(ComposeFixedToMoving parser invm p f m = Inl NotInvertible \<longleftrightarrow>
      (\<exists>F M. ReadComposite parser p f = Inr F \<and> ReadComposite parser p m = Inr M \<and>
             (\<exists>x. Matrix x \<in> set (FlattenTransformQueue F) \<and> invm x = None))) \<and>
   (\<forall>F M. ReadComposite parser p f = Inr F \<and> ReadComposite parser p m = Inr M \<and>
          (\<forall>x. Matrix x \<in> set (FlattenTransformQueue F) \<longrightarrow> invm x \<noteq> None) \<longrightarrow>
          (\<exists>R. ComposeFixedToMoving parser invm p f m = Inr R))"
proof (intro conjI allI impI)
  show "ComposeFixedToMoving parser invm p f m = Inl NotInvertible \<longleftrightarrow>
      (\<exists>F M. ReadComposite parser p f = Inr F \<and> ReadComposite parser p m = Inr M \<and>
             (\<exists>x. Matrix x \<in> set (FlattenTransformQueue F) \<and> invm x = None))"
    by (simp only: ComposeFixedToMoving_NotInvertible GetInverse_None_Matrix)
next
  fix F M
  assume h: "ReadComposite parser p f = Inr F \<and> ReadComposite parser p m = Inr M \<and>
          (\<forall>x. Matrix x \<in> set (FlattenTransformQueue F) \<longrightarrow> invm x \<noteq> None)"
  then have "GetInverse invm (FlattenTransformQueue F) \<noteq> None"
    by (simp add: GetInverse_None_Matrix)
  then obtain fi where "GetInverse invm (FlattenTransformQueue F) = Some fi" by blast
  then show "\<exists>R. ComposeFixedToMoving parser invm p f m = Inr R"
    using h by (simp add: ComposeFixedToMoving_reads)
qed

theorem ComposeFixedToMoving_NotInvertible_iff_witness:
  "ComposeFixedToMoving sample_parser sample_inv ''r.dcm'' ''S'' ''A'' = Inl NotInvertible \<and>
   Matrix ProjectZ \<in> set (FlattenTransformQueue [Matrix (Translation 1 2 3), Composite [Matrix ProjectZ]]) \<and>
   sample_inv ProjectZ = None \<and>
   (\<exists>R. ComposeFixedToMoving sample_parser sample_inv ''r.dcm'' ''A'' ''S'' = Inr R)"
proof -
  have sing: "Matrix ProjectZ \<in> set (FlattenTransformQueue [Matrix (Translation 1 2 3), Composite [Matrix ProjectZ]])"
    by (simp add: sample_flatten_S)
  have inv: "\<forall>x. Matrix x \<in> set (FlattenTransformQueue [Matrix (Translation 10 0 0)]) \<longrightarrow> sample_inv x \<noteq> None"
    by (simp add: sample_flatten_A)
  from ComposeFixedToMoving_NotInvertible_iff [of sample_parser sample_inv "''r.dcm''" "''S''" "''A''"]
  have "ComposeFixedToMoving sample_parser sample_inv ''r.dcm'' ''S'' ''A'' = Inl NotInvertible"
    using sample_read_S sample_read_A sing by auto
  moreover
  from ComposeFixedToMoving_NotInvertible_iff [of sample_parser sample_inv "''r.dcm''" "''A''" "''S''"]
  have "\<exists>R. ComposeFixedToMoving sample_parser sample_inv ''r.dcm'' ''A'' ''S'' = Inr R"
    using sample_read_S sample_read_A inv by blast
  ultimately show ?thesis using sing by simp
qed


subsection \<open>The driver's outcomes\<close>

lemma main_Inl:
  assumes "ParseArguments exec tokens = Inr args"
    and "SelectTransform parser invm args = Inl e"
  shows "main parser invm writer exec tokens =
         \<lparr>status = EXIT_FAILURE, stderr = [report e], writer_calls = []\<rparr>"
  using assms by (simp add: main_def)

lemma main_exit:
  assumes "ParseArguments exec tokens = Inl (Exit code printed)"
  shows "main parser invm writer exec tokens =
         \<lparr>status = code, stderr = printed, writer_calls = []\<rparr>"
  using assms by (simp add: main_def)

lemma main_writer_calls:
  assumes "(out, R) \<in> set (writer_calls (main parser invm writer exec tokens))"
  shows "\<exists>args. ParseArguments exec tokens = Inr args \<and> SelectTransform parser invm args = Inr R"
  using assms by (auto simp: main_def split: sum.splits exit.splits option.splits)

lemma ReadComposite_empty:
  assumes "parser p f = Inr None \<or> parser p f = Inr (Some [])"
  shows "ReadComposite parser p f = Inl (FrameNotFound f)"
  using assms by (auto simp: ReadComposite_def)

lemma ReadComposite_Inr:
  "ReadComposite parser p f = Inr c \<longleftrightarrow> (\<exists>rest. parser p f = Inr (Some (Composite c # rest)))"
  by (auto simp: ReadComposite_def split: sum.splits option.splits list.splits transform.splits)

lemma ExtractSingle_error:
  "ReadComposite parser p f = Inl e \<Longrightarrow> ExtractSingle parser p f = Inl e"
  by (simp add: ExtractSingle_def)

lemma ExtractSingle_Inr:
  "ReadComposite parser p f = Inr F \<Longrightarrow> ExtractSingle parser p f = Inr (FlattenTransformQueue F)"
  by (simp add: ExtractSingle_def AddTransform_def Flatten_Composite)

lemma SelectTransform_pair:
  "fixedFoR args = Some f \<Longrightarrow> movingFoR args = Some m \<Longrightarrow>
   SelectTransform parser invm args = ComposeFixedToMoving parser invm (inputReg args) f m"
  by (simp add: SelectTransform_def)

lemma SelectTransform_single:
  "fixedFoR args = Some f \<Longrightarrow> movingFoR args = None \<Longrightarrow>
   SelectTransform parser invm args = ExtractSingle parser (inputReg args) f"
  by (simp add: SelectTransform_def)

lemma SelectTransform_none:
  "fixedFoR args = None \<Longrightarrow> SelectTransform parser invm args = Inl MissingFixedFoR"
  by (simp add: SelectTransform_def)

lemma EXIT_FAILURE_nonzero: "EXIT_FAILURE \<noteq> 0"
  by (simp add: EXIT_FAILURE_def)

subsection \<open>A singular fixed composite stops the run before the writer\<close>

lemma sample_args_S_A:
  "ParseArguments ''reg_to_h5''
     [''--input'', ''r.dcm'', ''--output'', ''t.h5'', ''--fixed'', ''S'', ''--moving'', ''A''] =
   Inr \<lparr>inputReg = ''r.dcm'', outputTransform = ''t.h5'', fixedFoR = Some ''S'',
        movingFoR = Some ''A''\<rparr>"
  by (simp add: ParseArguments_def default_Arguments_def)

lemma sample_args_S_Q:
  "ParseArguments ''reg_to_h5''
     [''--input'', ''r.dcm'', ''--output'', ''t.h5'', ''--fixed'', ''S'', ''--moving'', ''Q''] =
   Inr \<lparr>inputReg = ''r.dcm'', outputTransform = ''t.h5'', fixedFoR = Some ''S'',
        movingFoR = Some ''Q''\<rparr>"
  by (simp add: ParseArguments_def default_Arguments_def)

text \<open>
  Claim C6 says that every run in pair-composition mode whose fixed composite contains a
  non-invertible element reports the not-invertible error. With the singular fixed frame
  \<open>S\<close> and a moving frame \<open>Q\<close> that the file does not hold, the run reports frame not
  found for \<open>Q\<close>: the moving frame is read before the fixed composite is inverted.
\<close>

theorem main_NotInvertible_counterexample:
  "ParseArguments ''reg_to_h5''
     [''--input'', ''r.dcm'', ''--output'', ''t.h5'', ''--fixed'', ''S'', ''--moving'', ''Q''] =
     Inr \<lparr>inputReg = ''r.dcm'', outputTransform = ''t.h5'', fixedFoR = Some ''S'',
          movingFoR = Some ''Q''\<rparr> \<and>
   ReadComposite sample_parser ''r.dcm'' ''S'' =
     Inr [Matrix (Translation 1 2 3), Composite [Matrix ProjectZ]] \<and>
   Matrix ProjectZ \<in>
     set (FlattenTransformQueue [Matrix (Translation 1 2 3), Composite [Matrix ProjectZ]]) \<and>
   sample_inv ProjectZ = None \<and>
   main sample_parser sample_inv sample_writer ''reg_to_h5''
     [''--input'', ''r.dcm'', ''--output'', ''t.h5'', ''--fixed'', ''S'', ''--moving'', ''Q''] =
   \<lparr>status = EXIT_FAILURE,
    stderr = [''Error: No transforms found for frame of reference Q''],
    writer_calls = []\<rparr>"
  by (simp add: sample_args_S_Q sample_read_S sample_flatten_S main_def SelectTransform_def
      ComposeFixedToMoving_moving_error [OF sample_read_S sample_read_Q])

text \<open>
  Claim C6, amended. In a run in pair-composition mode (the arguments parse, with a fixed
  and a moving frame) where the composite read for the fixed frame contains a matrix
  transform without inverse, the program exits with a non-zero status and never calls the
  writer, so no output file is created. When the moving frame has been read as well, the
  line reported is the not-invertible error; when the read of the moving frame fails, which
  comes before the inversion, the line reported is the error of that read.
\<close>

theorem main_NotInvertible:
  assumes "ParseArguments exec tokens = Inr args"
    and "fixedFoR args = Some f" and "movingFoR args = Some m"
    and "ReadComposite parser (inputReg args) f = Inr F"
    and "Matrix x \<in> set (FlattenTransformQueue F)" and "invm x = None"
  shows "status (main parser invm writer exec tokens) \<noteq> 0 \<and>
         writer_calls (main parser invm writer exec tokens) = [] \<and>
         (\<forall>M. ReadComposite parser (inputReg args) m = Inr M \<longrightarrow>
              stderr (main parser invm writer exec tokens) =
              [''Error: Fixed transform is not invertible'']) \<and>
         (\<forall>e. ReadComposite parser (inputReg args) m = Inl e \<longrightarrow>
              stderr (main parser invm writer exec tokens) = [report e])"
proof (cases "ReadComposite parser (inputReg args) m")
  case (Inl e)
  then have "SelectTransform parser invm args = Inl e"
    using assms by (simp add: SelectTransform_pair ComposeFixedToMoving_moving_error)
  from main_Inl [OF assms(1) this] show ?thesis
    using Inl by (simp add: EXIT_FAILURE_nonzero)
next
  case (Inr M)
  have "GetInverse invm (FlattenTransformQueue F) = None"
    using assms(5,6) GetInverse_None_Matrix by blast
  then have "SelectTransform parser invm args = Inl NotInvertible"
    using assms Inr by (simp add: SelectTransform_pair ComposeFixedToMoving_reads)
  from main_Inl [OF assms(1) this] show ?thesis
    using Inr by (simp add: EXIT_FAILURE_nonzero)
qed

theorem main_NotInvertible_witness:
  "status (main sample_parser sample_inv sample_writer ''reg_to_h5''
     [''--input'', ''r.dcm'', ''--output'', ''t.h5'', ''--fixed'', ''S'', ''--moving'', ''A'']) \<noteq> 0 \<and>
   writer_calls (main sample_parser sample_inv sample_writer ''reg_to_h5''
     [''--input'', ''r.dcm'', ''--output'', ''t.h5'', ''--fixed'', ''S'', ''--moving'', ''A'']) = [] \<and>
   stderr (main sample_parser sample_inv sample_writer ''reg_to_h5''
     [''--input'', ''r.dcm'', ''--output'', ''t.h5'', ''--fixed'', ''S'', ''--moving'', ''A'']) =
   [''Error: Fixed transform is not invertible''] \<and>
   status (main sample_parser sample_inv sample_writer ''reg_to_h5''
     [''--input'', ''r.dcm'', ''--output'', ''t.h5'', ''--fixed'', ''S'', ''--moving'', ''Q'']) \<noteq> 0 \<and>
   writer_calls (main sample_parser sample_inv sample_writer ''reg_to_h5''
     [''--input'', ''r.dcm'', ''--output'', ''t.h5'', ''--fixed'', ''S'', ''--moving'', ''Q'']) = [] \<and>
   stderr (main sample_parser sample_inv sample_writer ''reg_to_h5''
     [''--input'', ''r.dcm'', ''--output'', ''t.h5'', ''--fixed'', ''S'', ''--moving'', ''Q'']) =
   [report (FrameNotFound ''Q'')]"
proof -
  let ?argsA = "\<lparr>inputReg = ''r.dcm'', outputTransform = ''t.h5'', fixedFoR = Some ''S'',
                 movingFoR = Some ''A''\<rparr>"
  let ?argsQ = "\<lparr>inputReg = ''r.dcm'', outputTransform = ''t.h5'', fixedFoR = Some ''S'',
                 movingFoR = Some ''Q''\<rparr>"
  have fixedA: "fixedFoR ?argsA = Some ''S''" and movingA: "movingFoR ?argsA = Some ''A''"
    and fixedQ: "fixedFoR ?argsQ = Some ''S''" and movingQ: "movingFoR ?argsQ = Some ''Q''"
    by simp_all
  have FA: "ReadComposite sample_parser (inputReg ?argsA) ''S'' =
           Inr [Matrix (Translation 1 2 3), Composite [Matrix ProjectZ]]"
    and FQ: "ReadComposite sample_parser (inputReg ?argsQ) ''S'' =
           Inr [Matrix (Translation 1 2 3), Composite [Matrix ProjectZ]]"
    by (simp_all add: sample_read_S)
  have M: "ReadComposite sample_parser (inputReg ?argsA) ''A'' = Inr [Matrix (Translation 10 0 0)]"
    by (simp add: sample_read_A)
  have Q: "ReadComposite sample_parser (inputReg ?argsQ) ''Q'' = Inl (FrameNotFound ''Q'')"
    by (simp add: sample_read_Q)
  have sing: "Matrix ProjectZ \<in> set (FlattenTransformQueue [Matrix (Translation 1 2 3), Composite [Matrix ProjectZ]])"
    by (simp add: sample_flatten_S)
  have none: "sample_inv ProjectZ = None" by simp
  show ?thesis
    using main_NotInvertible [where invm = sample_inv and x = ProjectZ and writer = sample_writer,
        OF sample_args_S_A fixedA movingA FA sing none] M
      main_NotInvertible [where invm = sample_inv and x = ProjectZ and writer = sample_writer,
        OF sample_args_S_Q fixedQ movingQ FQ sing none] Q
    by blast
qed

subsection \<open>A frame absent from the file\<close>

text \<open>
  Claim C5. In a run whose arguments parse, when the parser yields an empty transform list
  (or none) for a requested frame of reference \<open>u\<close> whose read is reached (the fixed
  frame, or the moving frame after the fixed one was read), the program fails with the
  frame-not-found error: the exit status is \<^verbatim>\<open>EXIT_FAILURE\<close>, which is not zero, the
  writer is never called, and the one line on the error stream ends with the UID \<open>u\<close>.
\<close>

theorem main_FrameNotFound:
  assumes "ParseArguments exec tokens = Inr args"
    and "fixedFoR args = Some f"
    and "parser (inputReg args) u = Inr None \<or> parser (inputReg args) u = Inr (Some [])"
    and "u = f \<or> (movingFoR args = Some u \<and> (\<exists>F. ReadComposite parser (inputReg args) f = Inr F))"
  shows "main parser invm writer exec tokens =
         \<lparr>status = EXIT_FAILURE,
          stderr = [''Error: No transforms found for frame of reference '' @ u],
          writer_calls = []\<rparr> \<and> EXIT_FAILURE \<noteq> 0"
proof -
  have u: "ReadComposite parser (inputReg args) u = Inl (FrameNotFound u)"
    using assms(3) by (rule ReadComposite_empty)
  have "SelectTransform parser invm args = Inl (FrameNotFound u)"
  proof (cases "u = f")
    case True
    show ?thesis
    proof (cases "movingFoR args")
      case None
      then show ?thesis using assms(2) u True
        by (simp add: SelectTransform_single ExtractSingle_error)
    next
      case (Some m)
      then show ?thesis using assms(2) u True
        by (simp add: SelectTransform_pair ComposeFixedToMoving_fixed_error)
    qed
  next
    case False
    with assms(4) obtain F where "movingFoR args = Some u"
      and "ReadComposite parser (inputReg args) f = Inr F" by blast
    then show ?thesis using assms(2) u
      by (simp add: SelectTransform_pair ComposeFixedToMoving_moving_error)
  qed
  from main_Inl [OF assms(1) this] show ?thesis
    by (simp add: EXIT_FAILURE_nonzero)
qed

lemma sample_args_A_Q:
  "ParseArguments ''reg_to_h5''
     [''--input'', ''r.dcm'', ''--output'', ''t.h5'', ''--fixed'', ''A'', ''--moving'', ''Q''] =
   Inr \<lparr>inputReg = ''r.dcm'', outputTransform = ''t.h5'', fixedFoR = Some ''A'',
        movingFoR = Some ''Q''\<rparr>"
  by (simp add: ParseArguments_def default_Arguments_def)

lemma sample_parser_Q: "sample_parser ''r.dcm'' ''Q'' = Inr (Some [])"
  by (simp add: sample_parser_def)

theorem main_FrameNotFound_witness:
  "main sample_parser sample_inv sample_writer ''reg_to_h5''
     [''--input'', ''r.dcm'', ''--output'', ''t.h5'', ''--fixed'', ''A'', ''--moving'', ''Q''] =
   \<lparr>status = EXIT_FAILURE,
    stderr = [''Error: No transforms found for frame of reference Q''],
    writer_calls = []\<rparr> \<and> EXIT_FAILURE \<noteq> 0"
proof -
  let ?args = "\<lparr>inputReg = ''r.dcm'', outputTransform = ''t.h5'', fixedFoR = Some ''A'',
                movingFoR = Some ''Q''\<rparr>"
  have fixed: "fixedFoR ?args = Some ''A''" by simp
  have empty: "sample_parser (inputReg ?args) ''Q'' = Inr None \<or>
               sample_parser (inputReg ?args) ''Q'' = Inr (Some [])"
    by (simp add: sample_parser_Q)
  have reached: "''Q'' = ''A'' \<or> (movingFoR ?args = Some ''Q'' \<and>
                 (\<exists>F. ReadComposite sample_parser (inputReg ?args) ''A'' = Inr F))"
    by (simp add: sample_read_A)
  show ?thesis
    using main_FrameNotFound [OF sample_args_A_Q fixed empty reached, of sample_inv sample_writer]
    by simp
qed

subsection \<open>Who flattens\<close>

lemma ComposeFixedToMoving_flattened:
  assumes "ComposeFixedToMoving parser invm p f m = Inr R"
  shows "flattened R"
  using assms flattened_Flatten
  by (auto simp: ComposeFixedToMoving_def Let_def split: sum.splits option.splits)

lemma ExtractSingle_flattened:
  assumes "ExtractSingle parser p f = Inr R"
  shows "flattened R"
  using assms flattened_Flatten
  by (auto simp: ExtractSingle_def Let_def split: sum.splits)

text \<open>
  Claim C3 says that the reader flattens each composite before returning it. It does not:
  for the sample frame \<open>S\<close> the reader returns a queue that still holds a composite.
\<close>

theorem ReadComposite_not_flattened_counterexample:
  "ReadComposite sample_parser ''r.dcm'' ''S'' =
     Inr [Matrix (Translation 1 2 3), Composite [Matrix ProjectZ]] \<and>
   \<not> flattened [Matrix (Translation 1 2 3), Composite [Matrix ProjectZ]]"
  by (simp add: sample_read_S flattened_def)

text \<open>
  Claim C3, amended. \<^verbatim>\<open>ReadComposite\<close> returns the composite at the head of the parser's
  transform list as it is, without flattening it. Flattening is done by its callers:
  every composite that \<^verbatim>\<open>ComposeFixedToMoving\<close> or \<^verbatim>\<open>ExtractSingle\<close> returns is
  flattened, and so is every composite handed to the writer.
\<close>

theorem flattening_by_callers:
  "(ReadComposite parser p f = Inr c \<longrightarrow> (\<exists>rest. parser p f = Inr (Some (Composite c # rest)))) \<and>
   (ComposeFixedToMoving parser invm p f m = Inr R \<longrightarrow> flattened R) \<and>
   (ExtractSingle parser p f = Inr R \<longrightarrow> flattened R) \<and>
   ((out, W) \<in> set (writer_calls (main parser invm writer exec tokens)) \<longrightarrow> flattened W)"
proof -
  have "flattened W" if "(out, W) \<in> set (writer_calls (main parser invm writer exec tokens))"
  proof -
    from that obtain args where "SelectTransform parser invm args = Inr W"
      using main_writer_calls by blast
    then show ?thesis
      using ComposeFixedToMoving_flattened ExtractSingle_flattened
      by (auto simp: SelectTransform_def split: option.splits)
  qed
  then show ?thesis
    using ReadComposite_Inr [of parser p f c] ComposeFixedToMoving_flattened [of parser invm p f m R]
      ExtractSingle_flattened [of parser p f R]
    by blast
qed

lemma sample_extract_S:
  "ExtractSingle sample_parser ''r.dcm'' ''S'' = Inr [Matrix (Translation 1 2 3), Matrix ProjectZ]"
  by (simp add: ExtractSingle_Inr [OF sample_read_S] sample_flatten_S)

lemma sample_compose_A_S:
  "ComposeFixedToMoving sample_parser sample_inv ''r.dcm'' ''A'' ''S'' =
   Inr [Matrix (Translation 1 2 3), Matrix ProjectZ, Matrix (Translation (- 10) 0 0)]"
  by (simp add: ComposeFixedToMoving_reads [OF sample_read_A sample_read_S] sample_flatten_S
      sample_flatten_A GetInverse_def)

lemma sample_args_A_S:
  "ParseArguments ''reg_to_h5''
     [''--input'', ''r.dcm'', ''--output'', ''t.h5'', ''--fixed'', ''A'', ''--moving'', ''S''] =
   Inr \<lparr>inputReg = ''r.dcm'', outputTransform = ''t.h5'', fixedFoR = Some ''A'',
        movingFoR = Some ''S''\<rparr>"
  by (simp add: ParseArguments_def default_Arguments_def)

lemma sample_main_A_S:
  "main sample_parser sample_inv sample_writer ''reg_to_h5''
     [''--input'', ''r.dcm'', ''--output'', ''t.h5'', ''--fixed'', ''A'', ''--moving'', ''S''] =
   \<lparr>status = EXIT_SUCCESS, stderr = [],
    writer_calls =
      [(''t.h5'', [Matrix (Translation 1 2 3), Matrix ProjectZ, Matrix (Translation (- 10) 0 0)])]\<rparr>"
  by (simp add: main_def sample_args_A_S SelectTransform_def sample_compose_A_S sample_writer_def)

theorem flattening_by_callers_witness:
  "(\<exists>rest. sample_parser ''r.dcm'' ''S'' =
       Inr (Some (Composite [Matrix (Translation 1 2 3), Composite [Matrix ProjectZ]] # rest))) \<and>
   flattened [Matrix (Translation 1 2 3), Matrix ProjectZ, Matrix (Translation (- 10) 0 0)] \<and>
   flattened [Matrix (Translation 1 2 3), Matrix ProjectZ]"
proof -
  let ?W = "[Matrix (Translation 1 2 3), Matrix ProjectZ, Matrix (Translation (- 10) 0 0)]"
  let ?tokens = "[''--input'', ''r.dcm'', ''--output'', ''t.h5'', ''--fixed'', ''A'', ''--moving'', ''S'']"
  have call: "(''t.h5'', ?W) \<in>
      set (writer_calls (main sample_parser sample_inv sample_writer ''reg_to_h5'' ?tokens))"
    by (simp add: sample_main_A_S)
  show ?thesis
    using flattening_by_callers [where parser = sample_parser and p = "''r.dcm''" and f = "''S''"
        and c = "[Matrix (Translation 1 2 3), Composite [Matrix ProjectZ]]" and invm = sample_inv
        and m = "''A''" and R = "[Matrix (Translation 1 2 3), Matrix ProjectZ]"
        and out = "''t.h5''" and W = ?W and writer = sample_writer and exec = "''reg_to_h5''"
        and tokens = ?tokens]
      flattening_by_callers [where parser = sample_parser and p = "''r.dcm''" and f = "''A''"
        and c = "[Matrix (Translation 10 0 0)]" and invm = sample_inv
        and m = "''S''" and R = ?W
        and out = "''t.h5''" and W = ?W and writer = sample_writer and exec = "''reg_to_h5''"
        and tokens = ?tokens]
      sample_read_S sample_extract_S sample_compose_A_S call
    by blast
qed


subsection \<open>Single-frame extraction\<close>

lemma NestedQueue_empty: "NestedQueue t = [] \<longleftrightarrow> \<not> holds_matrix t"
  by (induction t) (auto simp: list_ex_iff)

lemma Flatten_empty: "FlattenTransformQueue q = [] \<longleftrightarrow> \<not> list_ex holds_matrix q"
  by (auto simp: FlattenTransformQueue_def NestedQueue_empty list_ex_iff)

lemma flattened_map_Matrix: "flattened q \<Longrightarrow> \<exists>ms. q = map Matrix ms"
proof (induction q)
  case Nil
  show ?case by simp
next
  case (Cons t q)
  then obtain ms where "q = map Matrix ms" by (auto simp: flattened_def)
  moreover from Cons.prems obtain x where "t = Matrix x" by (cases t) (auto simp: flattened_def)
  ultimately have "t # q = map Matrix (x # ms)" by simp
  then show ?case by (rule exI)
qed

lemma map_Matrix_point:
  "CompositeTransformPoint app (map Matrix ms) p = foldl (\<lambda>x m. app m x) p ms"
  by (induction ms arbitrary: p) (auto simp: CompositeTransformPoint_def)

text \<open>
  Claim C7 says that \<^verbatim>\<open>ExtractSingle\<close> returns a non-empty composite for every frame
  the parser finds. For the sample frame \<open>E\<close> the parser's list holds one composite,
  whose queue is empty, and the composite returned is empty.
\<close>

theorem ExtractSingle_empty_counterexample:
  "sample_parser ''r.dcm'' ''E'' = Inr (Some [Composite []]) \<and>
   ExtractSingle sample_parser ''r.dcm'' ''E'' = Inr []"
  by (simp add: sample_parser_def ExtractSingle_def ReadComposite_def AddTransform_def
      FlattenTransformQueue_def)

text \<open>
  Claim C7, amended. For every frame whose read succeeds, with \<open>F\<close> the composite the
  parser returned and \<open>ms\<close> its matrix transforms in queue order, \<^verbatim>\<open>ExtractSingle\<close>
  returns the flattened composite of these matrices; its action on any point is that of
  \<open>F\<close>, the sequential application of \<open>ms\<close> in queue order (the first matrix first);
  and it is non-empty exactly when \<open>F\<close> holds at least one matrix transform.
\<close>

theorem ExtractSingle_action:
  assumes "ReadComposite parser regPath f = Inr F"
  shows "\<exists>ms. ExtractSingle parser regPath f = Inr (map Matrix ms) \<and>
              FlattenTransformQueue F = map Matrix ms \<and>
              flattened (map Matrix ms) \<and>
              (\<forall>p. CompositeTransformPoint app (map Matrix ms) p = foldl (\<lambda>x m. app m x) p ms \<and>
                   CompositeTransformPoint app F p = foldl (\<lambda>x m. app m x) p ms) \<and>
              (map Matrix ms \<noteq> [] \<longleftrightarrow> list_ex holds_matrix F)"
proof -
  obtain ms where ms: "FlattenTransformQueue F = map Matrix ms"
    using flattened_map_Matrix [OF flattened_Flatten] by blast
  have "ExtractSingle parser regPath f = Inr (map Matrix ms)"
    using ExtractSingle_Inr [OF assms] ms by simp
  moreover have "flattened (map Matrix ms)"
    using flattened_Flatten [of F] ms by simp
  moreover have "CompositeTransformPoint app F p = foldl (\<lambda>x m. app m x) p ms" for p
    using Flatten_point [of app F p] ms by (simp add: map_Matrix_point)
  moreover have "map Matrix ms \<noteq> [] \<longleftrightarrow> list_ex holds_matrix F"
    using Flatten_empty [of F] ms by simp
  ultimately show ?thesis using ms by (auto simp: map_Matrix_point)
qed

theorem ExtractSingle_action_witness:
  "\<exists>ms. ExtractSingle sample_parser ''r.dcm'' ''S'' = Inr (map Matrix ms) \<and>
        FlattenTransformQueue [Matrix (Translation 1 2 3), Composite [Matrix ProjectZ]] = map Matrix ms \<and>
        flattened (map Matrix ms) \<and>
        (\<forall>p. CompositeTransformPoint sample_app (map Matrix ms) p =
             foldl (\<lambda>x m. sample_app m x) p ms \<and>
             CompositeTransformPoint sample_app [Matrix (Translation 1 2 3), Composite [Matrix ProjectZ]] p =
             foldl (\<lambda>x m. sample_app m x) p ms) \<and>
        (map Matrix ms \<noteq> [] \<longleftrightarrow>
         list_ex holds_matrix [Matrix (Translation 1 2 3), Composite [Matrix ProjectZ]])"
  using ExtractSingle_action [OF sample_read_S] .


subsection \<open>What reaches the writer\<close>

lemma sample_args_E:
  "ParseArguments ''reg_to_h5'' [''--input'', ''r.dcm'', ''--output'', ''t.h5'', ''--fixed'', ''E''] =
   Inr \<lparr>inputReg = ''r.dcm'', outputTransform = ''t.h5'', fixedFoR = Some ''E'',
        movingFoR = None\<rparr>"
  by (simp add: ParseArguments_def default_Arguments_def)

lemma sample_read_E: "ReadComposite sample_parser ''r.dcm'' ''E'' = Inr []"
  by (simp add: ReadComposite_def sample_parser_def)

text \<open>
  Claim C8 says that a composite read with an empty queue is reported as frame not found
  and never reaches the writer. For the sample frame \<open>E\<close> the composite read has an
  empty queue, the run succeeds, and the writer receives the empty composite.
\<close>

theorem empty_composite_written_counterexample:
  "ReadComposite sample_parser ''r.dcm'' ''E'' = Inr [] \<and>
   main sample_parser sample_inv sample_writer ''reg_to_h5''
     [''--input'', ''r.dcm'', ''--output'', ''t.h5'', ''--fixed'', ''E''] =
   \<lparr>status = EXIT_SUCCESS, stderr = [], writer_calls = [(''t.h5'', [])]\<rparr>"
  by (simp add: sample_read_E main_def sample_args_E SelectTransform_def
      ExtractSingle_Inr [OF sample_read_E] FlattenTransformQueue_def sample_writer_def)

lemma ComposeFixedToMoving_Inr_reads:
  assumes "ComposeFixedToMoving parser invm p f m = Inr R"
  shows "\<exists>F M fi. ReadComposite parser p f = Inr F \<and> ReadComposite parser p m = Inr M \<and>
                  GetInverse invm (FlattenTransformQueue F) = Some fi \<and>
                  R = FlattenTransformQueue M @ fi"
proof -
  from assms obtain F where F: "ReadComposite parser p f = Inr F"
    by (cases "ReadComposite parser p f") (auto simp: ComposeFixedToMoving_def)
  from assms F obtain M where M: "ReadComposite parser p m = Inr M"
    by (cases "ReadComposite parser p m") (auto simp: ComposeFixedToMoving_def)
  from assms obtain fi where "GetInverse invm (FlattenTransformQueue F) = Some fi"
    and "R = FlattenTransformQueue M @ fi"
    by (cases "GetInverse invm (FlattenTransformQueue F)")
       (auto simp: ComposeFixedToMoving_reads [OF F M])
  with F M show ?thesis by blast
qed

lemma GetInverse_length:
  "GetInverse invm q = Some r \<Longrightarrow> length r = length q"
  by (auto simp: GetInverse_Some dest: list_all2_lengthD)

text \<open>
  Claim C8, amended. The frame-not-found error is raised when the transform list that the
  parser yields for a requested frame is empty (or null), and then the run fails without
  calling the writer. The queue of the composite at the head of the list is not checked:
  a composite handed to the writer is non-empty exactly when a composite read for one of
  the requested frames holds at least one matrix transform.
\<close>

theorem writer_composite_nonempty:
  "(parser p f = Inr None \<or> parser p f = Inr (Some []) \<longrightarrow>
      ReadComposite parser p f = Inl (FrameNotFound f)) \<and>
   (ParseArguments exec tokens = Inr args \<and> fixedFoR args = Some f \<and>
    (parser (inputReg args) f = Inr None \<or> parser (inputReg args) f = Inr (Some [])) \<longrightarrow>
      main parser invm writer exec tokens =
      \<lparr>status = EXIT_FAILURE,
       stderr = [''Error: No transforms found for frame of reference '' @ f],
       writer_calls = []\<rparr>) \<and>
   ((out, R) \<in> set (writer_calls (main parser invm writer exec tokens)) \<longrightarrow>
      (\<exists>a u F. ParseArguments exec tokens = Inr a \<and> fixedFoR a = Some u \<and>
         ReadComposite parser (inputReg a) u = Inr F \<and>
         (case movingFoR a of
            None \<Rightarrow> R \<noteq> [] \<longleftrightarrow> list_ex holds_matrix F
          | Some m \<Rightarrow> \<exists>M. ReadComposite parser (inputReg a) m = Inr M \<and>
                        (R \<noteq> [] \<longleftrightarrow> list_ex holds_matrix F \<or> list_ex holds_matrix M))))"
proof (intro conjI impI)
  assume "parser p f = Inr None \<or> parser p f = Inr (Some [])"
  then show "ReadComposite parser p f = Inl (FrameNotFound f)" by (rule ReadComposite_empty)
next
  assume h: "ParseArguments exec tokens = Inr args \<and> fixedFoR args = Some f \<and>
    (parser (inputReg args) f = Inr None \<or> parser (inputReg args) f = Inr (Some []))"
  then have "ReadComposite parser (inputReg args) f = Inl (FrameNotFound f)"
    by (simp add: ReadComposite_empty)
  then have "SelectTransform parser invm args = Inl (FrameNotFound f)"
    using h by (cases "movingFoR args")
      (simp_all add: SelectTransform_single SelectTransform_pair ExtractSingle_error
        ComposeFixedToMoving_fixed_error)
  with h show "main parser invm writer exec tokens =
      \<lparr>status = EXIT_FAILURE,
       stderr = [''Error: No transforms found for frame of reference '' @ f],
       writer_calls = []\<rparr>"
    by (simp add: main_Inl)
next
  assume "(out, R) \<in> set (writer_calls (main parser invm writer exec tokens))"
  then obtain a where a: "ParseArguments exec tokens = Inr a"
    and sel: "SelectTransform parser invm a = Inr R"
    using main_writer_calls by blast
  from sel obtain u where u: "fixedFoR a = Some u"
    by (cases "fixedFoR a") (auto simp: SelectTransform_none)
  show "\<exists>a u F. ParseArguments exec tokens = Inr a \<and> fixedFoR a = Some u \<and>
         ReadComposite parser (inputReg a) u = Inr F \<and>
         (case movingFoR a of
            None \<Rightarrow> R \<noteq> [] \<longleftrightarrow> list_ex holds_matrix F
          | Some m \<Rightarrow> \<exists>M. ReadComposite parser (inputReg a) m = Inr M \<and>
                        (R \<noteq> [] \<longleftrightarrow> list_ex holds_matrix F \<or> list_ex holds_matrix M))"
  proof (cases "movingFoR a")
    case None
    with sel u have ex: "ExtractSingle parser (inputReg a) u = Inr R"
      by (simp add: SelectTransform_single)
    then obtain F where F: "ReadComposite parser (inputReg a) u = Inr F"
      by (cases "ReadComposite parser (inputReg a) u") (auto simp: ExtractSingle_error)
    with ex have "R = FlattenTransformQueue F" by (simp add: ExtractSingle_Inr)
    then have "R \<noteq> [] \<longleftrightarrow> list_ex holds_matrix F" by (simp add: Flatten_empty)
    with a u F None show ?thesis by auto
  next
    case (Some m)
    with sel u have "ComposeFixedToMoving parser invm (inputReg a) u m = Inr R"
      by (simp add: SelectTransform_pair)
    then obtain F M fi where F: "ReadComposite parser (inputReg a) u = Inr F"
      and M: "ReadComposite parser (inputReg a) m = Inr M"
      and fi: "GetInverse invm (FlattenTransformQueue F) = Some fi"
      and R: "R = FlattenTransformQueue M @ fi"
      using ComposeFixedToMoving_Inr_reads by blast
    have "fi = [] \<longleftrightarrow> FlattenTransformQueue F = []"
      using GetInverse_length [OF fi] by auto
    with R have "R \<noteq> [] \<longleftrightarrow> list_ex holds_matrix F \<or> list_ex holds_matrix M"
      by (auto simp: Flatten_empty)
    with a u F M Some show ?thesis by auto
  qed
qed


lemma sample_args_Q:
  "ParseArguments ''reg_to_h5'' [''--input'', ''r.dcm'', ''--output'', ''t.h5'', ''--fixed'', ''Q''] =
   Inr \<lparr>inputReg = ''r.dcm'', outputTransform = ''t.h5'', fixedFoR = Some ''Q'',
        movingFoR = None\<rparr>"
  by (simp add: ParseArguments_def default_Arguments_def)

lemma sample_args_A_B:
  "ParseArguments ''reg_to_h5''
     [''--input'', ''r.dcm'', ''--output'', ''t.h5'', ''--fixed'', ''A'', ''--moving'', ''B''] =
   Inr \<lparr>inputReg = ''r.dcm'', outputTransform = ''t.h5'', fixedFoR = Some ''A'',
        movingFoR = Some ''B''\<rparr>"
  by (simp add: ParseArguments_def default_Arguments_def)

lemma sample_main_A_B:
  "main sample_parser sample_inv sample_writer ''reg_to_h5''
     [''--input'', ''r.dcm'', ''--output'', ''t.h5'', ''--fixed'', ''A'', ''--moving'', ''B''] =
   \<lparr>status = EXIT_SUCCESS, stderr = [],
    writer_calls = [(''t.h5'', [Matrix (Translation 0 5 0), Matrix (Translation (- 10) 0 0)])]\<rparr>"
  by (simp add: main_def sample_args_A_B SelectTransform_def sample_compose_A_B sample_writer_def)

theorem writer_composite_nonempty_witness:
  "ReadComposite sample_parser ''r.dcm'' ''Q'' = Inl (FrameNotFound ''Q'') \<and>
   main sample_parser sample_inv sample_writer ''reg_to_h5''
     [''--input'', ''r.dcm'', ''--output'', ''t.h5'', ''--fixed'', ''Q''] =
   \<lparr>status = EXIT_FAILURE,
    stderr = [''Error: No transforms found for frame of reference Q''],
    writer_calls = []\<rparr> \<and>
   (\<exists>a u F. ParseArguments ''reg_to_h5''
        [''--input'', ''r.dcm'', ''--output'', ''t.h5'', ''--fixed'', ''A'', ''--moving'', ''B''] = Inr a \<and>
      fixedFoR a = Some u \<and> ReadComposite sample_parser (inputReg a) u = Inr F \<and>
      (case movingFoR a of
         None \<Rightarrow> [Matrix (Translation 0 5 0), Matrix (Translation (- 10) 0 0)] \<noteq> [] \<longleftrightarrow>
                 list_ex holds_matrix F
       | Some m \<Rightarrow> \<exists>M. ReadComposite sample_parser (inputReg a) m = Inr M \<and>
                     ([Matrix (Translation 0 5 0), Matrix (Translation (- 10) 0 0)] \<noteq> [] \<longleftrightarrow>
                      list_ex holds_matrix F \<or> list_ex holds_matrix M)))"
proof -
  let ?args = "\<lparr>inputReg = ''r.dcm'', outputTransform = ''t.h5'', fixedFoR = Some ''Q'',
                movingFoR = None\<rparr>"
  let ?R = "[Matrix (Translation 0 5 0), Matrix (Translation (- 10) 0 0)]"
  have empty: "sample_parser ''r.dcm'' ''Q'' = Inr None \<or> sample_parser ''r.dcm'' ''Q'' = Inr (Some [])"
    by (simp add: sample_parser_Q)
  have run: "ParseArguments ''reg_to_h5''
       [''--input'', ''r.dcm'', ''--output'', ''t.h5'', ''--fixed'', ''Q''] = Inr ?args \<and>
     fixedFoR ?args = Some ''Q'' \<and>
     (sample_parser (inputReg ?args) ''Q'' = Inr None \<or>
      sample_parser (inputReg ?args) ''Q'' = Inr (Some []))"
    by (simp add: sample_args_Q sample_parser_Q)
  have call: "(''t.h5'', ?R) \<in> set (writer_calls (main sample_parser sample_inv sample_writer ''reg_to_h5''
       [''--input'', ''r.dcm'', ''--output'', ''t.h5'', ''--fixed'', ''A'', ''--moving'', ''B'']))"
    by (simp add: sample_main_A_B)
  from writer_composite_nonempty [of sample_parser "''r.dcm''" "''Q''" "''reg_to_h5''"
      "[''--input'', ''r.dcm'', ''--output'', ''t.h5'', ''--fixed'', ''Q'']" ?args
      sample_inv sample_writer "''t.h5''" ?R] empty run
  have first: "ReadComposite sample_parser ''r.dcm'' ''Q'' = Inl (FrameNotFound ''Q'') \<and>
     main sample_parser sample_inv sample_writer ''reg_to_h5''
       [''--input'', ''r.dcm'', ''--output'', ''t.h5'', ''--fixed'', ''Q''] =
     \<lparr>status = EXIT_FAILURE,
      stderr = [''Error: No transforms found for frame of reference Q''],
      writer_calls = []\<rparr>"
    by simp
  from writer_composite_nonempty [of sample_parser "''r.dcm''" "''Q''" "''reg_to_h5''"
      "[''--input'', ''r.dcm'', ''--output'', ''t.h5'', ''--fixed'', ''A'', ''--moving'', ''B'']" ?args
      sample_inv sample_writer "''t.h5''" ?R] call
  have "\<exists>a u F. ParseArguments ''reg_to_h5''
        [''--input'', ''r.dcm'', ''--output'', ''t.h5'', ''--fixed'', ''A'', ''--moving'', ''B''] = Inr a \<and>
      fixedFoR a = Some u \<and> ReadComposite sample_parser (inputReg a) u = Inr F \<and>
      (case movingFoR a of
         None \<Rightarrow> ?R \<noteq> [] \<longleftrightarrow> list_ex holds_matrix F
       | Some m \<Rightarrow> \<exists>M. ReadComposite sample_parser (inputReg a) m = Inr M \<and>
                     (?R \<noteq> [] \<longleftrightarrow> list_ex holds_matrix F \<or> list_ex holds_matrix M))"
    by blast
  with first show ?thesis by blast
qed


subsection \<open>Parsing the command line\<close>

lemma ParseLoop_value:
  assumes "key \<in> set value_flags"
  shows "ParseLoop exec args (key # v # rest) = ParseLoop exec (store_flag key v args) rest"
  using assms by (auto simp: value_flags_def store_flag_def)

lemma ParseLoop_final:
  assumes "key \<in> set value_flags"
  shows "ParseLoop exec args [key] =
         Inl (Exit EXIT_FAILURE ((''Unknown argument: '' @ key) # PrintUsage exec))"
  using assms by (auto simp: value_flags_def)




lemma flag_field_store_other:
  assumes "long_name key' \<noteq> long_name key"
  shows "flag_field key (store_flag key' v args) = flag_field key args"
  using assms by (auto simp: flag_field_def store_flag_def long_name_def split: if_splits)




lemma ParseLoop_other:
  assumes "key \<notin> set value_flags"
  shows "ParseLoop exec args (key # rest) =
         (if key = ''--help'' \<or> key = ''-h'' then Inl (Exit EXIT_SUCCESS (PrintUsage exec))
          else Inl (Exit EXIT_FAILURE ((''Unknown argument: '' @ key) # PrintUsage exec)))"
  using assms by (simp add: value_flags_def)






subsection \<open>Missing flags\<close>

lemma ParseLoop_exit:
  assumes "ParseLoop exec args ts = Inl (Exit c printed)"
  shows "set (PrintUsage exec) \<subseteq> set printed \<and>
         (c = EXIT_FAILURE \<or> c = EXIT_SUCCESS \<and> (''--help'' \<in> set ts \<or> ''-h'' \<in> set ts))"
  using assms
proof (induction "length ts" arbitrary: ts args rule: less_induct)
  case less
  show ?case
  proof (cases ts)
    case Nil
    with less.prems show ?thesis by simp
  next
    case (Cons k rest)
    show ?thesis
    proof (cases "k \<in> set value_flags")
      case False
      show ?thesis
        using less.prems unfolding Cons ParseLoop_other [OF False]
        by (auto split: if_splits)
    next
      case True
      show ?thesis
      proof (cases rest)
        case Nil
        show ?thesis
          using less.prems unfolding Cons Nil ParseLoop_final [OF True] by auto
      next
        case rest: (Cons v rest')
        have "ParseLoop exec (store_flag k v args) rest' = Inl (Exit c printed)"
          using less.prems unfolding Cons rest ParseLoop_value [OF True] .
        moreover have "length rest' < length ts" using Cons rest by simp
        ultimately have "set (PrintUsage exec) \<subseteq> set printed \<and>
          (c = EXIT_FAILURE \<or> c = EXIT_SUCCESS \<and> (''--help'' \<in> set rest' \<or> ''-h'' \<in> set rest'))"
          using less.hyps by blast
        then show ?thesis using Cons rest by auto
      qed
    qed
  qed
qed

lemma ParseLoop_keeps_field:
  assumes "\<forall>k \<in> set ts. long_name k \<noteq> long_name key"
    and "ParseLoop exec args ts = Inr a"
  shows "flag_field key a = flag_field key args"
  using assms
proof (induction "length ts" arbitrary: ts args rule: less_induct)
  case less
  show ?case
  proof (cases ts)
    case Nil
    with less.prems show ?thesis by simp
  next
    case (Cons k rest)
    show ?thesis
    proof (cases "k \<in> set value_flags")
      case False
      show ?thesis
        using less.prems(2) unfolding Cons ParseLoop_other [OF False]
        by (simp split: if_splits)
    next
      case True
      show ?thesis
      proof (cases rest)
        case Nil
        show ?thesis
          using less.prems(2) unfolding Cons Nil ParseLoop_final [OF True] by simp
      next
        case rest: (Cons v rest')
        have "ParseLoop exec (store_flag k v args) rest' = Inr a"
          using less.prems(2) unfolding Cons rest ParseLoop_value [OF True] .
        moreover have "length rest' < length ts" using Cons rest by simp
        moreover have "\<forall>k \<in> set rest'. long_name k \<noteq> long_name key"
          using less.prems(1) Cons rest by simp
        ultimately have "flag_field key a = flag_field key (store_flag k v args)"
          using less.hyps by blast
        moreover have "long_name k \<noteq> long_name key" using less.prems(1) Cons by simp
        ultimately show ?thesis by (simp add: flag_field_store_other)
      qed
    qed
  qed
qed

lemma ParseLoop_keeps_inputReg:
  assumes "''--input'' \<notin> set ts" and "''-i'' \<notin> set ts"
    and "ParseLoop exec args ts = Inr a"
  shows "inputReg a = inputReg args"
proof -
  have "\<forall>k \<in> set ts. long_name k \<noteq> long_name ''--input''"
    using assms(1,2) by (auto simp: long_name_def split: if_splits)
  then have "flag_field ''--input'' a = flag_field ''--input'' args"
    using assms(3) by (rule ParseLoop_keeps_field)
  then show ?thesis by (simp add: flag_field_def)
qed

lemma ParseLoop_keeps_outputTransform:
  assumes "''--output'' \<notin> set ts" and "''-o'' \<notin> set ts"
    and "ParseLoop exec args ts = Inr a"
  shows "outputTransform a = outputTransform args"
proof -
  have "\<forall>k \<in> set ts. long_name k \<noteq> long_name ''--output''"
    using assms(1,2) by (auto simp: long_name_def split: if_splits)
  then have "flag_field ''--output'' a = flag_field ''--output'' args"
    using assms(3) by (rule ParseLoop_keeps_field)
  then show ?thesis by (simp add: flag_field_def)
qed

lemma ParseLoop_keeps_fixedFoR:
  assumes "''--fixed'' \<notin> set ts" and "ParseLoop exec args ts = Inr a"
  shows "fixedFoR a = fixedFoR args"
proof -
  have "\<forall>k \<in> set ts. long_name k \<noteq> long_name ''--fixed''"
    using assms(1) by (auto simp: long_name_def split: if_splits)
  then have "flag_field ''--fixed'' a = flag_field ''--fixed'' args"
    using assms(2) by (rule ParseLoop_keeps_field)
  then show ?thesis by (simp add: flag_field_def)
qed

lemma ParseArguments_exit:
  assumes "ParseArguments exec ts = Inl (Exit c printed)"
  shows "set (PrintUsage exec) \<subseteq> set printed \<and>
         (c = EXIT_FAILURE \<or> c = EXIT_SUCCESS \<and> (''--help'' \<in> set ts \<or> ''-h'' \<in> set ts))"
proof (cases "ParseLoop exec default_Arguments ts")
  case (Inl e)
  with assms have "ParseLoop exec default_Arguments ts = Inl (Exit c printed)"
    by (simp add: ParseArguments_def)
  then show ?thesis by (rule ParseLoop_exit)
next
  case (Inr a)
  with assms show ?thesis by (simp add: ParseArguments_def split: if_splits)
qed

lemma ParseArguments_missing_path:
  assumes "(''--input'' \<notin> set ts \<and> ''-i'' \<notin> set ts) \<or> (''--output'' \<notin> set ts \<and> ''-o'' \<notin> set ts)"
  shows "\<exists>c printed. ParseArguments exec ts = Inl (Exit c printed)"
proof (cases "ParseLoop exec default_Arguments ts")
  case (Inl e)
  then show ?thesis by (cases e) (simp add: ParseArguments_def)
next
  case (Inr a)
  have "inputReg a = [] \<or> outputTransform a = []"
    using assms ParseLoop_keeps_inputReg [OF _ _ Inr] ParseLoop_keeps_outputTransform [OF _ _ Inr]
    by (auto simp: default_Arguments_def)
  with Inr show ?thesis by (simp add: ParseArguments_def)
qed

lemma ParseArguments_missing_fixed:
  assumes "''--fixed'' \<notin> set ts" and "ParseArguments exec ts = Inr args"
  shows "fixedFoR args = None"
proof (cases "ParseLoop exec default_Arguments ts")
  case (Inl e)
  with assms(2) show ?thesis by (simp add: ParseArguments_def)
next
  case (Inr a)
  with assms(2) have "args = a" by (simp add: ParseArguments_def split: if_splits)
  moreover have "fixedFoR a = fixedFoR default_Arguments"
    using assms(1) Inr by (rule ParseLoop_keeps_fixedFoR)
  ultimately show ?thesis by (simp add: default_Arguments_def)
qed

lemma usage_not_error: "set (PrintUsage exec) \<inter> set [report MissingFixedFoR] = {}"
  by (simp add: PrintUsage_def)

lemma main_MissingFixedFoR:
  assumes "ParseArguments exec tokens = Inr args" and "fixedFoR args = None"
  shows "main parser invm writer exec tokens =
         \<lparr>status = EXIT_FAILURE,
          stderr = [''Error: At least --fixed must be supplied to determine which transform to export''],
          writer_calls = []\<rparr> \<and>
         set (PrintUsage exec) \<inter> set (stderr (main parser invm writer exec tokens)) = {}"
proof -
  from assms have "SelectTransform parser invm args = Inl MissingFixedFoR"
    by (simp add: SelectTransform_none)
  with assms have m: "main parser invm writer exec tokens =
      \<lparr>status = EXIT_FAILURE, stderr = [report MissingFixedFoR], writer_calls = []\<rparr>"
    by (simp add: main_Inl)
  then have "set (PrintUsage exec) \<inter> set (stderr (main parser invm writer exec tokens)) = {}"
    using usage_not_error [of exec] by simp
  with m show ?thesis by simp
qed

lemma sample_args_no_fixed:
  "ParseArguments ''reg_to_h5'' [''--input'', ''r.dcm'', ''--output'', ''t.h5''] =
   Inr \<lparr>inputReg = ''r.dcm'', outputTransform = ''t.h5'', fixedFoR = None, movingFoR = None\<rparr>"
  by (simp add: ParseArguments_def default_Arguments_def)

lemma sample_help_exit:
  "main sample_parser sample_inv sample_writer ''reg_to_h5'' [''--help''] =
   \<lparr>status = 0, stderr = PrintUsage ''reg_to_h5'', writer_calls = []\<rparr>"
  by (simp add: main_def ParseArguments_def EXIT_SUCCESS_def)

text \<open>
  Claim C4 says that a command line without \<^verbatim>\<open>--fixed\<close> gets the usage message. It gets
  the error line of the missing fixed frame instead, and no usage message.
\<close>

theorem missing_fixed_no_usage_counterexample:
  "main sample_parser sample_inv sample_writer ''reg_to_h5''
     [''--input'', ''r.dcm'', ''--output'', ''t.h5''] =
   \<lparr>status = EXIT_FAILURE,
    stderr = [''Error: At least --fixed must be supplied to determine which transform to export''],
    writer_calls = []\<rparr> \<and>
   PrintUsage ''reg_to_h5'' =
   [''Usage: reg_to_h5 --input REG_FILE --output OUTPUT_H5 [--fixed FRAME_UID] [--moving FRAME_UID]'']"
  by (simp add: main_def sample_args_no_fixed SelectTransform_def PrintUsage_def)

text \<open>
  Claim C4, amended. For every command line in which \<^verbatim>\<open>--input\<close> (or \<^verbatim>\<open>-i\<close>) or
  \<^verbatim>\<open>--output\<close> (or \<^verbatim>\<open>-o\<close>) does not occur, the program prints the usage message, never
  calls the writer, and exits with \<^verbatim>\<open>EXIT_FAILURE\<close>, except that a \<^verbatim>\<open>--help\<close> or \<^verbatim>\<open>-h\<close>
  token may end the parsing with \<^verbatim>\<open>EXIT_SUCCESS\<close>. For every command line in which
  \<^verbatim>\<open>--fixed\<close> does not occur, either \<^verbatim>\<open>ParseArguments\<close> exits in that same way, or the
  arguments parse, the fixed frame is absent and the failure is of the kind
  \<open>MissingFixedFoR\<close>: the program prints its error line and no usage message, exits with
  \<^verbatim>\<open>EXIT_FAILURE\<close> and never calls the writer. Whenever the arguments parse and the fixed
  frame is absent, the failure is of the kind \<open>MissingFixedFoR\<close>. \<^verbatim>\<open>EXIT_FAILURE\<close> is not zero.
\<close>

theorem missing_required_flag:
  "((''--input'' \<notin> set tokens \<and> ''-i'' \<notin> set tokens) \<or>
    (''--output'' \<notin> set tokens \<and> ''-o'' \<notin> set tokens) \<longrightarrow>
      (\<exists>c printed.
         main parser invm writer exec tokens =
           \<lparr>status = c, stderr = printed, writer_calls = []\<rparr> \<and>
         set (PrintUsage exec) \<subseteq> set printed \<and>
         (c = EXIT_FAILURE \<or>
          c = EXIT_SUCCESS \<and> (''--help'' \<in> set tokens \<or> ''-h'' \<in> set tokens)))) \<and>
   (''--fixed'' \<notin> set tokens \<longrightarrow>
      (\<exists>c printed.
         ParseArguments exec tokens = Inl (Exit c printed) \<and>
         main parser invm writer exec tokens =
           \<lparr>status = c, stderr = printed, writer_calls = []\<rparr> \<and>
         set (PrintUsage exec) \<subseteq> set printed \<and>
         (c = EXIT_FAILURE \<or>
          c = EXIT_SUCCESS \<and> (''--help'' \<in> set tokens \<or> ''-h'' \<in> set tokens))) \<or>
      (\<exists>a. ParseArguments exec tokens = Inr a \<and> fixedFoR a = None \<and>
         main parser invm writer exec tokens =
           \<lparr>status = EXIT_FAILURE,
            stderr = [''Error: At least --fixed must be supplied to determine which transform to export''],
            writer_calls = []\<rparr> \<and>
         set (PrintUsage exec) \<inter> set (stderr (main parser invm writer exec tokens)) = {})) \<and>
   (ParseArguments exec tokens = Inr args \<and> fixedFoR args = None \<longrightarrow>
      main parser invm writer exec tokens =
      \<lparr>status = EXIT_FAILURE,
       stderr = [''Error: At least --fixed must be supplied to determine which transform to export''],
       writer_calls = []\<rparr> \<and>
      set (PrintUsage exec) \<inter> set (stderr (main parser invm writer exec tokens)) = {}) \<and>
   EXIT_FAILURE \<noteq> 0"
proof -
  have exits: "\<exists>c printed.
         ParseArguments exec tokens = Inl (Exit c printed) \<and>
         main parser invm writer exec tokens =
           \<lparr>status = c, stderr = printed, writer_calls = []\<rparr> \<and>
         set (PrintUsage exec) \<subseteq> set printed \<and>
         (c = EXIT_FAILURE \<or>
          c = EXIT_SUCCESS \<and> (''--help'' \<in> set tokens \<or> ''-h'' \<in> set tokens))"
    if "ParseArguments exec tokens = Inl e" for e
  proof -
    obtain c printed where e: "e = Exit c printed" by (cases e)
    with that have p: "ParseArguments exec tokens = Inl (Exit c printed)" by simp
    from p have "main parser invm writer exec tokens =
        \<lparr>status = c, stderr = printed, writer_calls = []\<rparr>"
      by (rule main_exit)
    with p ParseArguments_exit [OF p] show ?thesis by blast
  qed
  have paths: "\<exists>c printed.
         main parser invm writer exec tokens =
           \<lparr>status = c, stderr = printed, writer_calls = []\<rparr> \<and>
         set (PrintUsage exec) \<subseteq> set printed \<and>
         (c = EXIT_FAILURE \<or>
          c = EXIT_SUCCESS \<and> (''--help'' \<in> set tokens \<or> ''-h'' \<in> set tokens))"
    if "(''--input'' \<notin> set tokens \<and> ''-i'' \<notin> set tokens) \<or>
        (''--output'' \<notin> set tokens \<and> ''-o'' \<notin> set tokens)"
  proof -
    from that obtain c printed where "ParseArguments exec tokens = Inl (Exit c printed)"
      using ParseArguments_missing_path by blast
    from exits [OF this] show ?thesis by blast
  qed
  have fixed: "(\<exists>c printed.
         ParseArguments exec tokens = Inl (Exit c printed) \<and>
         main parser invm writer exec tokens =
           \<lparr>status = c, stderr = printed, writer_calls = []\<rparr> \<and>
         set (PrintUsage exec) \<subseteq> set printed \<and>
         (c = EXIT_FAILURE \<or>
          c = EXIT_SUCCESS \<and> (''--help'' \<in> set tokens \<or> ''-h'' \<in> set tokens))) \<or>
      (\<exists>a. ParseArguments exec tokens = Inr a \<and> fixedFoR a = None \<and>
         main parser invm writer exec tokens =
           \<lparr>status = EXIT_FAILURE,
            stderr = [''Error: At least --fixed must be supplied to determine which transform to export''],
            writer_calls = []\<rparr> \<and>
         set (PrintUsage exec) \<inter> set (stderr (main parser invm writer exec tokens)) = {})"
    if nofixed: "''--fixed'' \<notin> set tokens"
  proof (cases "ParseArguments exec tokens")
    case (Inl e)
    from exits [OF this] show ?thesis by blast
  next
    case (Inr a)
    have "fixedFoR a = None" using nofixed Inr by (rule ParseArguments_missing_fixed)
    with Inr main_MissingFixedFoR [OF Inr this, of parser invm writer] show ?thesis by blast
  qed
  have parsed: "main parser invm writer exec tokens =
      \<lparr>status = EXIT_FAILURE,
       stderr = [''Error: At least --fixed must be supplied to determine which transform to export''],
       writer_calls = []\<rparr> \<and>
      set (PrintUsage exec) \<inter> set (stderr (main parser invm writer exec tokens)) = {}"
    if "ParseArguments exec tokens = Inr args \<and> fixedFoR args = None"
    using that main_MissingFixedFoR by blast
  from paths fixed parsed EXIT_FAILURE_nonzero show ?thesis by blast
qed

theorem missing_required_flag_witness:
  "(\<exists>c printed.
      main sample_parser sample_inv sample_writer ''reg_to_h5'' [''--input'', ''r.dcm'', ''--fixed'', ''A''] =
        \<lparr>status = c, stderr = printed, writer_calls = []\<rparr> \<and>
      set (PrintUsage ''reg_to_h5'') \<subseteq> set printed \<and> c = EXIT_FAILURE) \<and>
   main sample_parser sample_inv sample_writer ''reg_to_h5''
     [''--input'', ''r.dcm'', ''--output'', ''t.h5''] =
   \<lparr>status = EXIT_FAILURE,
    stderr = [''Error: At least --fixed must be supplied to determine which transform to export''],
    writer_calls = []\<rparr> \<and>
   set (PrintUsage ''reg_to_h5'') \<inter>
   set (stderr (main sample_parser sample_inv sample_writer ''reg_to_h5''
     [''--input'', ''r.dcm'', ''--output'', ''t.h5''])) = {}"
proof -
  let ?args = "\<lparr>inputReg = ''r.dcm'', outputTransform = ''t.h5'', fixedFoR = None, movingFoR = None\<rparr>"
  have no_output: "(''--input'' \<notin> set [''--input'', ''r.dcm'', ''--fixed'', ''A''] \<and>
                    ''-i'' \<notin> set [''--input'', ''r.dcm'', ''--fixed'', ''A'']) \<or>
                   (''--output'' \<notin> set [''--input'', ''r.dcm'', ''--fixed'', ''A''] \<and>
                    ''-o'' \<notin> set [''--input'', ''r.dcm'', ''--fixed'', ''A''])"
    and no_help: "''--help'' \<notin> set [''--input'', ''r.dcm'', ''--fixed'', ''A''] \<and>
                  ''-h'' \<notin> set [''--input'', ''r.dcm'', ''--fixed'', ''A'']"
    by simp_all
  have no_fixed: "''--fixed'' \<notin> set [''--input'', ''r.dcm'', ''--output'', ''t.h5'']"
    by simp
  have parsed: "ParseArguments ''reg_to_h5'' [''--input'', ''r.dcm'', ''--output'', ''t.h5''] = Inr ?args \<and>
    fixedFoR ?args = None"
    by (simp add: sample_args_no_fixed)
  from missing_required_flag [where tokens = "[''--input'', ''r.dcm'', ''--fixed'', ''A'']"
      and exec = "''reg_to_h5''" and args = ?args and parser = sample_parser and invm = sample_inv
      and writer = sample_writer] no_output no_help
  have first: "\<exists>c printed.
      main sample_parser sample_inv sample_writer ''reg_to_h5'' [''--input'', ''r.dcm'', ''--fixed'', ''A''] =
        \<lparr>status = c, stderr = printed, writer_calls = []\<rparr> \<and>
      set (PrintUsage ''reg_to_h5'') \<subseteq> set printed \<and> c = EXIT_FAILURE"
    by blast
  from missing_required_flag [where tokens = "[''--input'', ''r.dcm'', ''--output'', ''t.h5'']"
      and exec = "''reg_to_h5''" and args = ?args and parser = sample_parser and invm = sample_inv
      and writer = sample_writer] no_fixed parsed
  have "main sample_parser sample_inv sample_writer ''reg_to_h5''
     [''--input'', ''r.dcm'', ''--output'', ''t.h5''] =
   \<lparr>status = EXIT_FAILURE,
    stderr = [''Error: At least --fixed must be supplied to determine which transform to export''],
    writer_calls = []\<rparr> \<and>
   set (PrintUsage ''reg_to_h5'') \<inter>
   set (stderr (main sample_parser sample_inv sample_writer ''reg_to_h5''
     [''--input'', ''r.dcm'', ''--output'', ''t.h5''])) = {}"
    by blast
  with first show ?thesis by blast
qed

subsection \<open>The action of the pair composition\<close>










text \<open>The third scenario of the spec: fixed \<open>A\<close>, moving \<open>B\<close>, the origin goes to \<open>(- 10, 5, 0)\<close>.\<close>

lemma sample_action_A_B:
  "CompositeTransformPoint sample_app
     [Matrix (Translation 0 5 0), Matrix (Translation (- 10) 0 0)] (0, 0, 0) = (- 10, 5, 0)"
  by (simp add: CompositeTransformPoint_def)

end
